theory Spec2Isabelle
  imports Main
begin

chapter \<open>i18n-adapt: the translation pipeline and the React resource merge\<close>

text \<open>
  A shallow embedding of \<^verbatim>\<open>lib/languages/processors.js\<close> (\<^verbatim>\<open>processBatches\<close>,
  \<^verbatim>\<open>translateWithGemini\<close>, \<^verbatim>\<open>translateWithGoogle\<close>, \<^verbatim>\<open>translateStrings\<close>) and of
  \<^verbatim>\<open>updateTranslations\<close> of the React adapter.

  Conventions of the embedding.
  \<^item> A JavaScript string is a \<open>string\<close>; a \<open>char\<close> stands for one UTF-16 code unit in the
    range U+0000 to U+00FF, so \<open>length\<close> is JavaScript's \<^verbatim>\<open>.length\<close> on such text.
  \<^item> A thrown exception or a rejected promise is a value \<open>Inl e\<close> of a sum type; \<open>await\<close>
    is sequencing.
  \<^item> The network, the clock, the file system and the JavaScript engine's evaluator are
    outside the repository: they are parameters of the functions that use them, or small
    explicit models (the file system).
  \<^item> \<^verbatim>\<open>console.log\<close>, \<^verbatim>\<open>console.warn\<close> and \<^verbatim>\<open>console.error\<close> produce no value the code
    reads back; they are left out.
\<close>

section \<open>JavaScript strings\<close>

fun starts_with :: "'a list \<Rightarrow> 'a list \<Rightarrow> bool" where
  "starts_with s [] = True"
| "starts_with [] (p # ps) = False"
| "starts_with (c # s) (p # ps) = (c = p \<and> starts_with s ps)"

text \<open>\<^verbatim>\<open>s.includes(pat)\<close>: some suffix of \<open>s\<close> starts with \<open>pat\<close>.\<close>

fun js_includes :: "string \<Rightarrow> string \<Rightarrow> bool" where
  "js_includes [] pat = (pat = [])"
| "js_includes (c # s) pat = (starts_with (c # s) pat \<or> js_includes s pat)"

text \<open>
  \<^verbatim>\<open>s.toLowerCase()\<close> on code units below 256: the letters A to Z and the capital letters
  of the Latin-1 supplement (U+00C0 to U+00DE without the multiplication sign U+00D7) move
  up by 32; every other code unit stays.
\<close>

definition upper_units :: string where
  "upper_units = ''ABCDEFGHIJKLMNOPQRSTUVWXYZ'' @
     [CHR 0xC0, CHR 0xC1, CHR 0xC2, CHR 0xC3, CHR 0xC4, CHR 0xC5, CHR 0xC6, CHR 0xC7,
      CHR 0xC8, CHR 0xC9, CHR 0xCA, CHR 0xCB, CHR 0xCC, CHR 0xCD, CHR 0xCE, CHR 0xCF,
      CHR 0xD0, CHR 0xD1, CHR 0xD2, CHR 0xD3, CHR 0xD4, CHR 0xD5, CHR 0xD6,
      CHR 0xD8, CHR 0xD9, CHR 0xDA, CHR 0xDB, CHR 0xDC, CHR 0xDD, CHR 0xDE]"

definition lower_units :: string where
  "lower_units = ''abcdefghijklmnopqrstuvwxyz'' @
     [CHR 0xE0, CHR 0xE1, CHR 0xE2, CHR 0xE3, CHR 0xE4, CHR 0xE5, CHR 0xE6, CHR 0xE7,
      CHR 0xE8, CHR 0xE9, CHR 0xEA, CHR 0xEB, CHR 0xEC, CHR 0xED, CHR 0xEE, CHR 0xEF,
      CHR 0xF0, CHR 0xF1, CHR 0xF2, CHR 0xF3, CHR 0xF4, CHR 0xF5, CHR 0xF6,
      CHR 0xF8, CHR 0xF9, CHR 0xFA, CHR 0xFB, CHR 0xFC, CHR 0xFD, CHR 0xFE]"

definition lower_unit :: "char \<Rightarrow> char" where
  "lower_unit c = (case map_of (zip upper_units lower_units) c of Some l \<Rightarrow> l | None \<Rightarrow> c)"

definition toLowerCase :: "string \<Rightarrow> string" where
  "toLowerCase s = map lower_unit s"

section \<open>Namespace classification\<close>

text \<open>
  The body of the \<^verbatim>\<open>strings.forEach\<close> callback of \<^verbatim>\<open>translateStrings\<close>: the name of the
  bucket of \<^verbatim>\<open>namespaces\<close> that \<open>str\<close> is pushed to.
\<close>

definition categorize :: "string \<Rightarrow> string" where
  "categorize str =
     (let lowerStr = toLowerCase str in
      if js_includes lowerStr ''error'' \<or> js_includes lowerStr ''fail''
         \<or> js_includes lowerStr ''invalid'' then ''errors''
      else if js_includes lowerStr ''home'' \<or> js_includes lowerStr ''about''
         \<or> js_includes lowerStr ''contact'' then ''navigation''
      else if js_includes lowerStr ''submit'' \<or> js_includes lowerStr ''cancel''
         \<or> js_includes lowerStr ''save'' then ''forms''
      else if js_includes lowerStr ''loading'' \<or> js_includes lowerStr ''success''
         \<or> js_includes lowerStr ''warning'' then ''messages''
      else if length str < 20 then ''common''
      else ''components'')"

text \<open>
  The specification's classifier: an ordered list of rules, each a set of keywords and a
  namespace; the first rule with a keyword contained in the phrase, ignoring case, wins;
  a phrase no rule matches is \<open>common\<close> when shorter than 20 characters and \<open>components\<close>
  otherwise.
\<close>

definition classifier_rules :: "(string list \<times> string) list" where
  "classifier_rules =
     [([''error'', ''fail'', ''invalid''], ''errors''),
      ([''home'', ''about'', ''contact''], ''navigation''),
      ([''submit'', ''cancel'', ''save''], ''forms''),
      ([''loading'', ''success'', ''warning''], ''messages'')]"

definition contains_ci :: "string \<Rightarrow> string \<Rightarrow> bool" where
  "contains_ci phrase keyword = js_includes (toLowerCase phrase) keyword"

definition classify_by_rules :: "string \<Rightarrow> string" where
  "classify_by_rules phrase =
     (case find (\<lambda>rule. list_ex (contains_ci phrase) (fst rule)) classifier_rules of
        Some rule \<Rightarrow> snd rule
      | None \<Rightarrow> if length phrase < 20 then ''common'' else ''components'')"

section \<open>JavaScript values and exceptions\<close>

text \<open>
  The values \<^verbatim>\<open>JSON.parse\<close> returns and \<^verbatim>\<open>JSON.stringify\<close> prints. An object is the
  list of its own properties in enumeration order. Numbers are restricted to the integers
  that JavaScript prints as plain decimal numerals.
\<close>

datatype json = JNull | JBool bool | JNum int | JStr string | JArr "json list"
  | JObj "(string \<times> json) list"

text \<open>The part of an HTTP error response that \<^verbatim>\<open>translateWithGemini\<close> reads.\<close>

record http_response =
  status :: nat
  data_error :: "string option"
  statusText :: string

text \<open>
  What can be thrown: \<open>Error m\<close> is \<^verbatim>\<open>new Error(m)\<close> raised by the repository's code;
  \<open>TypeError\<close> and \<open>SyntaxError\<close> are raised by the engine; \<open>AxiosError r\<close> is the
  rejection of \<^verbatim>\<open>axios.post\<close>, with \<^verbatim>\<open>err.response\<close> when the server answered;
  \<open>FsError\<close> is a rejection of an \<^verbatim>\<open>fs-extra\<close> call.
\<close>

datatype js_error =
    Error string
  | TypeError
  | SyntaxError
  | AxiosError "http_response option"
  | FsError

text \<open>
  The spread \<^verbatim>\<open>...v\<close> in an argument list iterates \<open>v\<close>: an array gives its elements,
  a string its characters, and any other value here is not iterable.
\<close>

definition spread_iterable :: "json \<Rightarrow> js_error + json list" where
  "spread_iterable v =
     (case v of
        JArr xs \<Rightarrow> Inr xs
      | JStr s \<Rightarrow> Inr (map (\<lambda>c. JStr [c]) s)
      | _ \<Rightarrow> Inl TypeError)"

text \<open>
  \<^verbatim>\<open>xs.slice(start, end)\<close> for integer arguments: a negative index counts from the end,
  both are clamped to the array.
\<close>

definition js_slice :: "'a list \<Rightarrow> int \<Rightarrow> int \<Rightarrow> 'a list" where
  "js_slice xs start fin =
     (let len = int (length xs);
          k = (if start < 0 then max (len + start) 0 else min start len);
          final = (if fin < 0 then max (len + fin) 0 else min fin len)
      in take (nat (final - k)) (drop (nat k) xs))"

section \<open>Batched processing\<close>

text \<open>
  \<^verbatim>\<open>processBatches(items, processFn, batchSize = 15, delayMs = 2000)\<close>.
  The per-batch function is asynchronous and talks to the outside world: it takes the
  state \<open>'w\<close> of that world and returns the new one with its result or its rejection.
  What the function itself does to the outside is recorded in a log: \<open>Invoke batch\<close> for
  a call of \<^verbatim>\<open>processFn\<close>, \<open>Pause ms\<close> for an awaited \<^verbatim>\<open>setTimeout\<close>.

  The \<^verbatim>\<open>for\<close> loop has no bound of its own (with \<^verbatim>\<open>batchSize\<close> 0 or negative the index
  never reaches \<^verbatim>\<open>items.length\<close>), so it is a partial function: \<open>None\<close> is a loop
  that does not return. The \<^verbatim>\<open>catch\<close> block rethrows what it caught.
\<close>

datatype 'a batch_event = Invoke "'a list" | Pause nat

partial_function (option) processBatches_loop ::
  "('a list \<Rightarrow> 'w \<Rightarrow> (js_error + json) \<times> 'w) \<Rightarrow> int \<Rightarrow> nat \<Rightarrow> 'a list \<Rightarrow> int
     \<Rightarrow> json list \<times> 'a batch_event list \<times> 'w
     \<Rightarrow> ((js_error + json list) \<times> 'a batch_event list \<times> 'w) option" where
  "processBatches_loop processFn batchSize delayMs items i st =
     (case st of (results, log, w) \<Rightarrow>
        if i < int (length items) then
          (let batch = js_slice items i (i + batchSize) in
           case processFn batch w of
             (Inl err, w') \<Rightarrow> Some (Inl err, log @ [Invoke batch], w')
           | (Inr batchResults, w') \<Rightarrow>
               (case spread_iterable batchResults of
                  Inl err \<Rightarrow> Some (Inl err, log @ [Invoke batch], w')
                | Inr rs \<Rightarrow>
                    processBatches_loop processFn batchSize delayMs items (i + batchSize)
                      (results @ rs,
                       log @ [Invoke batch]
                         @ (if i + batchSize < int (length items) then [Pause delayMs] else []),
                       w')))
        else Some (Inr results, log, w))"

definition processBatches ::
  "'a list \<Rightarrow> ('a list \<Rightarrow> 'w \<Rightarrow> (js_error + json) \<times> 'w) \<Rightarrow> int option \<Rightarrow> nat option \<Rightarrow> 'w
     \<Rightarrow> ((js_error + json list) \<times> 'a batch_event list \<times> 'w) option" where
  "processBatches items processFn batchSize delayMs w =
     processBatches_loop processFn
       (case batchSize of None \<Rightarrow> 15 | Some b \<Rightarrow> b)
       (case delayMs of None \<Rightarrow> 2000 | Some d \<Rightarrow> d)
       items 0 ([], [], w)"

text \<open>
  The specification's words for the batching: \<open>chunks_of n xs\<close> cuts \<open>xs\<close> into
  consecutive pieces of \<open>n\<close> elements, the last one possibly shorter;
  \<open>intersperse sep xs\<close> puts \<open>sep\<close> between consecutive elements and nowhere else.
\<close>

function chunks_of :: "nat \<Rightarrow> 'a list \<Rightarrow> 'a list list" where
  "chunks_of n xs = (if n = 0 \<or> xs = [] then [] else take n xs # chunks_of n (drop n xs))"
  by pat_completeness auto
termination
  by (relation "measure (\<lambda>(n, xs). length xs)") auto

declare chunks_of.simps [simp del]

fun intersperse :: "'a \<Rightarrow> 'a list \<Rightarrow> 'a list" where
  "intersperse sep [] = []"
| "intersperse sep [x] = [x]"
| "intersperse sep (x # y # ys) = x # sep # intersperse sep (y # ys)"

section \<open>Numbers as text, objects, JSON text\<close>

text \<open>The decimal numeral of a natural number, as template literals print it.\<close>

fun decimal :: "nat \<Rightarrow> string" where
  "decimal n =
     (if n < 10 then [''0123456789'' ! n]
      else decimal (n div 10) @ [''0123456789'' ! (n mod 10)])"

declare decimal.simps [simp del]

definition show_int :: "int \<Rightarrow> string" where
  "show_int i = (if i < 0 then ''-'' @ decimal (nat (- i)) else decimal (nat i))"

text \<open>
  An object is the list of its own properties in the order \<^verbatim>\<open>Object.keys\<close>,
  \<^verbatim>\<open>JSON.stringify\<close> and the spread enumerate them: the array indices (canonical
  numerals below \<open>2\<^sup>3\<^sup>2 - 1\<close>) first, in ascending order, then the other names in the
  order of their creation. \<open>obj_set k v\<close> is the assignment \<^verbatim>\<open>o[k] = v\<close> on such an object:
  an existing property keeps its place. Properties inherited from \<^verbatim>\<open>Object.prototype\<close>
  and the name \<^verbatim>\<open>__proto__\<close> are outside the model.
\<close>

definition is_digit :: "char \<Rightarrow> bool" where
  "is_digit c = (c \<in> set ''0123456789'')"

definition digit_value :: "char \<Rightarrow> nat" where
  "digit_value c = (case map_of (zip ''0123456789'' [0, 1, 2, 3, 4, 5, 6, 7, 8, 9]) c of
                      Some d \<Rightarrow> d | None \<Rightarrow> 0)"

definition digits_value :: "string \<Rightarrow> nat" where
  "digits_value k = foldl (\<lambda>a c. 10 * a + digit_value c) 0 k"

definition is_array_index :: "string \<Rightarrow> bool" where
  "is_array_index k =
     (k \<noteq> [] \<and> list_all is_digit k \<and> (k = ''0'' \<or> hd k \<noteq> CHR ''0'')
      \<and> digits_value k < 4294967295)"

fun insert_index :: "string \<Rightarrow> 'v \<Rightarrow> (string \<times> 'v) list \<Rightarrow> (string \<times> 'v) list" where
  "insert_index k v [] = [(k, v)]"
| "insert_index k v (p # ps) =
     (if is_array_index (fst p) \<and> digits_value (fst p) < digits_value k
      then p # insert_index k v ps
      else (k, v) # p # ps)"

definition obj_set :: "string \<Rightarrow> 'v \<Rightarrow> (string \<times> 'v) list \<Rightarrow> (string \<times> 'v) list" where
  "obj_set k v ps =
     (if k \<in> set (map fst ps) then map (\<lambda>p. if fst p = k then (k, v) else p) ps
      else if is_array_index k then insert_index k v ps
      else ps @ [(k, v)])"

text \<open>
  \<^verbatim>\<open>JSON.stringify\<close>: \<open>quote\<close> is the standard's QuoteJSONString on code units below 256;
  \<open>stringify2 ind v\<close> is \<^verbatim>\<open>JSON.stringify(v, null, 2)\<close> at the current indentation \<open>ind\<close>;
  \<open>stringify_strings\<close> is \<^verbatim>\<open>JSON.stringify\<close> without indentation on an array of strings.
\<close>

definition quote_unit :: "char \<Rightarrow> string" where
  "quote_unit c =
     (if c = CHR 0x08 then [CHR 0x5C, CHR ''b'']
      else if c = CHR 0x09 then [CHR 0x5C, CHR ''t'']
      else if c = CHR 0x0A then [CHR 0x5C, CHR ''n'']
      else if c = CHR 0x0C then [CHR 0x5C, CHR ''f'']
      else if c = CHR 0x0D then [CHR 0x5C, CHR ''r'']
      else if c = CHR 0x22 then [CHR 0x5C, CHR 0x22]
      else if c = CHR 0x5C then [CHR 0x5C, CHR 0x5C]
      else if (of_char c :: nat) < 32
        then [CHR 0x5C, CHR ''u'', CHR ''0'', CHR ''0'',
              ''0123456789abcdef'' ! (of_char c div 16), ''0123456789abcdef'' ! (of_char c mod 16)]
      else [c])"

definition quote :: "string \<Rightarrow> string" where
  "quote s = [CHR 0x22] @ concat (map quote_unit s) @ [CHR 0x22]"

fun join :: "string \<Rightarrow> string list \<Rightarrow> string" where
  "join sep [] = []"
| "join sep [x] = x"
| "join sep (x # y # ys) = x @ sep @ join sep (y # ys)"

fun stringify2 :: "string \<Rightarrow> json \<Rightarrow> string" where
  "stringify2 ind JNull = ''null''"
| "stringify2 ind (JBool b) = (if b then ''true'' else ''false'')"
| "stringify2 ind (JNum n) = show_int n"
| "stringify2 ind (JStr s) = quote s"
| "stringify2 ind (JArr xs) =
     (if xs = [] then ''[]''
      else ''['' @ [CHR 0x0A]
        @ join ('','' @ [CHR 0x0A]) (map (\<lambda>x. ind @ ''  '' @ stringify2 (ind @ ''  '') x) xs)
        @ [CHR 0x0A] @ ind @ '']'')"
| "stringify2 ind (JObj ps) =
     (if ps = [] then ''{}''
      else ''{'' @ [CHR 0x0A]
        @ join ('','' @ [CHR 0x0A])
            (map (\<lambda>p. ind @ ''  '' @ quote (fst p) @ '': '' @ stringify2 (ind @ ''  '') (snd p)) ps)
        @ [CHR 0x0A] @ ind @ ''}'')"

definition stringify_strings :: "string list \<Rightarrow> string" where
  "stringify_strings texts = ''['' @ join '','' (map quote texts) @ '']''"

section \<open>The Gemini client\<close>

text \<open>
  \<^verbatim>\<open>axios.post\<close> is a parameter \<open>axios_post\<close>: given the request and the state of the
  outside world it answers with \<^verbatim>\<open>response.data.candidates\<close> or rejects. Of the request
  the model keeps what depends on the arguments, the URL and the prompt; the generation
  parameters and the header are constants of the call. A candidate is the list of the
  texts of its \<^verbatim>\<open>content.parts\<close>; reading \<^verbatim>\<open>content.parts[0].text\<close> of a candidate
  without one is a \<open>TypeError\<close>. \<^verbatim>\<open>JSON.parse\<close> is a parameter \<open>JSON_parse\<close>.
\<close>

record gemini_request =
  url :: string
  prompt :: string

type_synonym candidate = "string list"
type_synonym gemini_data = "candidate list option"
type_synonym 'w http_post = "gemini_request \<Rightarrow> 'w \<Rightarrow> (js_error + gemini_data) \<times> 'w"

text \<open>\<^verbatim>\<open>langNameMap[targetLang] || 'Spanish'\<close>.\<close>

definition langNameMap :: "(string \<times> string) list" where
  "langNameMap =
     [(''es'', ''Spanish''), (''zh'', ''Chinese (Simplified)''), (''hi'', ''Hindi''),
      (''fr'', ''French''), (''de'', ''German''), (''ja'', ''Japanese''), (''ko'', ''Korean''),
      (''pt'', ''Portuguese''), (''ru'', ''Russian''), (''ar'', ''Arabic'')]"

definition langName :: "string \<Rightarrow> string" where
  "langName targetLang =
     (case map_of langNameMap targetLang of Some name \<Rightarrow> name | None \<Rightarrow> ''Spanish'')"

definition gemini_prompt :: "string list \<Rightarrow> string \<Rightarrow> string" where
  \<open>gemini_prompt texts targetLang =
     ''Translate the following English phrases to '' @ langName targetLang @ ''. \<newline>''
     @ ''Return only the translations as a JSON array in the exact same order, with no additional text or explanation.\<newline>''
     @ ''Example: ["translation1", "translation2", ...]\<newline>''
     @ ''\<newline>''
     @ ''Phrases to translate:\<newline>''
     @ stringify_strings texts\<close>

definition gemini_url :: "string \<Rightarrow> string" where
  "gemini_url apiKey =
     ''https://generativelanguage.googleapis.com/v1beta/models/gemini-2.0-flash:generateContent?key=''
     @ apiKey"

text \<open>
  \<^verbatim>\<open>responseText.match(/\[([\s\S]*)\]/)\<close>, the first capture group: the match starts at
  the first \<^verbatim>\<open>[\<close> of the text and, the star being greedy, ends at the last \<^verbatim>\<open>]\<close>
  after it; there is no match when no \<^verbatim>\<open>]\<close> follows the first \<^verbatim>\<open>[\<close>.
\<close>

definition bracket_match :: "string \<Rightarrow> string option" where
  "bracket_match responseText =
     (case dropWhile (\<lambda>c. c \<noteq> CHR ''['') responseText of
        [] \<Rightarrow> None
      | opening # after \<Rightarrow>
          if CHR '']'' \<in> set after
          then Some (rev (tl (dropWhile (\<lambda>c. c \<noteq> CHR '']'') (rev after))))
          else None)"

text \<open>
  The specification's words for the parsing policy, "the first top-level bracketed array
  substring": from the first \<^verbatim>\<open>[\<close> of the text to the \<^verbatim>\<open>]\<close> that closes it, brackets
  in between being counted.
\<close>

fun to_matching :: "nat \<Rightarrow> string \<Rightarrow> string option" where
  "to_matching depth [] = None"
| "to_matching depth (c # s) =
     (if c = CHR ''['' then map_option (Cons c) (to_matching (Suc depth) s)
      else if c = CHR '']'' then
        (if depth = 0 then Some [c] else map_option (Cons c) (to_matching (depth - 1) s))
      else map_option (Cons c) (to_matching depth s))"

definition first_bracketed_array :: "string \<Rightarrow> string option" where
  "first_bracketed_array responseText =
     (case dropWhile (\<lambda>c. c \<noteq> CHR ''['') responseText of
        [] \<Rightarrow> None
      | opening # after \<Rightarrow> map_option (Cons opening) (to_matching 0 after))"

text \<open>The statements of the \<^verbatim>\<open>try\<close> block after the request.\<close>

definition gemini_result :: "(string \<Rightarrow> js_error + json) \<Rightarrow> gemini_data \<Rightarrow> js_error + json" where
  "gemini_result JSON_parse data =
     (case data of
        Some (first # others) \<Rightarrow>
          (case first of
             [] \<Rightarrow> Inl TypeError
           | responseText # parts \<Rightarrow>
               (case bracket_match responseText of
                  Some inner \<Rightarrow> JSON_parse (''['' @ inner @ '']'')
                | None \<Rightarrow> JSON_parse responseText))
      | _ \<Rightarrow> Inl (Error ''Unexpected response format from Gemini API''))"

text \<open>
  The \<^verbatim>\<open>catch\<close> block: an error that carries a \<^verbatim>\<open>response\<close> is replaced by an \<open>Error\<close>
  with the status and \<^verbatim>\<open>data.error || statusText\<close>; any other error is rethrown.
\<close>

definition gemini_catch :: "js_error \<Rightarrow> js_error" where
  "gemini_catch err =
     (case err of
        AxiosError (Some response) \<Rightarrow>
          Error (''Gemini API error: '' @ decimal (status response) @ '' - ''
                 @ (case data_error response of
                      Some m \<Rightarrow> if m = [] then statusText response else m
                    | None \<Rightarrow> statusText response))
      | _ \<Rightarrow> err)"

definition translateWithGemini ::
  "'w http_post \<Rightarrow> (string \<Rightarrow> js_error + json) \<Rightarrow> string list \<Rightarrow> string \<Rightarrow> string \<Rightarrow> 'w
     \<Rightarrow> (js_error + json) \<times> 'w" where
  "translateWithGemini axios_post JSON_parse texts targetLang apiKey w =
     (if texts = [] then (Inr (JArr []), w)
      else
        (case axios_post \<lparr>url = gemini_url apiKey, prompt = gemini_prompt texts targetLang\<rparr> w of
           (Inl err, w') \<Rightarrow> (Inl (gemini_catch err), w')
         | (Inr data, w') \<Rightarrow>
             (case gemini_result JSON_parse data of
                Inl err \<Rightarrow> (Inl (gemini_catch err), w')
              | Inr translations \<Rightarrow> (Inr translations, w'))))"

definition translateWithGoogle :: "string list \<Rightarrow> string \<Rightarrow> string \<Rightarrow> 'w \<Rightarrow> (js_error + json) \<times> 'w" where
  "translateWithGoogle texts targetLang apiKey w =
     (Inl (Error ''Google Translate backup not implemented''), w)"

section \<open>The orchestrator\<close>

text \<open>
  \<^verbatim>\<open>translateStrings(strings, targetLang, apiKey, service = 'gemini')\<close>.
  \<open>group_strings\<close> is the \<^verbatim>\<open>forEach\<close> that pushes every string to its bucket of
  \<^verbatim>\<open>namespaces\<close>; \<open>index_map\<close> is the flattening, entry \<open>idx\<close> being
  \<^verbatim>\<open>indexMap[idx] = { namespace, original }\<close>, and \<^verbatim>\<open>allStrings\<close> its second components.
\<close>

definition empty_namespaces :: "(string \<times> string list) list" where
  "empty_namespaces =
     [(''common'', []), (''navigation'', []), (''components'', []), (''messages'', []),
      (''forms'', []), (''errors'', [])]"

definition push_to :: "string \<Rightarrow> string \<Rightarrow> (string \<times> string list) list \<Rightarrow> (string \<times> string list) list" where
  "push_to namespace str namespaces =
     map (\<lambda>b. if fst b = namespace then (fst b, snd b @ [str]) else b) namespaces"

definition group_strings :: "string list \<Rightarrow> (string \<times> string list) list" where
  "group_strings strings = foldl (\<lambda>namespaces str. push_to (categorize str) str namespaces)
     empty_namespaces strings"

definition index_map :: "(string \<times> string list) list \<Rightarrow> (string \<times> string) list" where
  "index_map namespaces = concat (map (\<lambda>b. map (\<lambda>str. (fst b, str)) (snd b)) namespaces)"

text \<open>
  \<^verbatim>\<open>_.camelCase(original.substring(0, 30))\<close>. lodash is not part of the repository:
  \<^verbatim>\<open>_.camelCase\<close> is a parameter.
\<close>

definition deriveKey :: "(string \<Rightarrow> string) \<Rightarrow> string \<Rightarrow> string" where
  "deriveKey camelCase original = camelCase (take 30 original)"

text \<open>
  The body of the \<^verbatim>\<open>translations.forEach\<close> callback, and the loop: \<^verbatim>\<open>indexMap[idx]\<close>
  beyond the last entry is \<^verbatim>\<open>undefined\<close>, and destructuring it throws a \<open>TypeError\<close>.
\<close>

definition assign_translation ::
  "(string \<Rightarrow> string) \<Rightarrow> (string \<times> (string \<times> json) list) list \<Rightarrow> string \<times> string \<Rightarrow> json
     \<Rightarrow> (string \<times> (string \<times> json) list) list" where
  "assign_translation camelCase translatedObject entry translation =
     (case entry of (namespace, original) \<Rightarrow>
        let translatedObject' =
              (case map_of translatedObject namespace of
                 None \<Rightarrow> obj_set namespace [] translatedObject
               | Some props \<Rightarrow> translatedObject);
            key = deriveKey camelCase original;
            props = (case map_of translatedObject' namespace of Some ps \<Rightarrow> ps | None \<Rightarrow> [])
        in obj_set namespace (obj_set key translation props) translatedObject')"

fun regroup_from ::
  "(string \<Rightarrow> string) \<Rightarrow> (string \<times> string) list \<Rightarrow> nat \<Rightarrow> json list
     \<Rightarrow> (string \<times> (string \<times> json) list) list
     \<Rightarrow> js_error + (string \<times> (string \<times> json) list) list" where
  "regroup_from camelCase indexMap idx [] translatedObject = Inr translatedObject"
| "regroup_from camelCase indexMap idx (translation # rest) translatedObject =
     (if idx < length indexMap
      then regroup_from camelCase indexMap (Suc idx) rest
             (assign_translation camelCase translatedObject (indexMap ! idx) translation)
      else Inl TypeError)"

definition as_json :: "(string \<times> (string \<times> json) list) list \<Rightarrow> json" where
  "as_json translatedObject = JObj (map (\<lambda>b. (fst b, JObj (snd b))) translatedObject)"

definition translateStrings ::
  "'w http_post \<Rightarrow> (string \<Rightarrow> js_error + json) \<Rightarrow> (string \<Rightarrow> string) \<Rightarrow> string list option
     \<Rightarrow> string \<Rightarrow> string \<Rightarrow> string option \<Rightarrow> 'w
     \<Rightarrow> ((js_error + json) \<times> string batch_event list \<times> 'w) option" where
  "translateStrings axios_post JSON_parse camelCase strings targetLang apiKey service w =
     (case strings of
        None \<Rightarrow> Some (Inr (JObj []), [], w)
      | Some strs \<Rightarrow>
          if strs = [] then Some (Inr (JObj []), [], w)
          else
            (let indexMap = index_map (group_strings strs);
                 allStrings = map snd indexMap;
                 svc = (case service of None \<Rightarrow> ''gemini'' | Some s \<Rightarrow> s);
                 translated =
                   (if svc = ''gemini'' then
                      processBatches allStrings
                        (\<lambda>batch. translateWithGemini axios_post JSON_parse batch targetLang apiKey)
                        None None w
                    else if svc = ''google'' then
                      processBatches allStrings
                        (\<lambda>batch. translateWithGoogle batch targetLang apiKey) None None w
                    else Some (Inl (Error (''Unsupported translation service: '' @ svc)), [], w))
             in case translated of
                  None \<Rightarrow> None
                | Some (Inl err, log, w') \<Rightarrow> Some (Inl err, log, w')
                | Some (Inr translations, log, w') \<Rightarrow>
                    (case regroup_from camelCase indexMap 0 translations [] of
                       Inl err \<Rightarrow> Some (Inl err, log, w')
                     | Inr translatedObject \<Rightarrow> Some (Inr (as_json translatedObject), log, w'))))"

section \<open>Key derivation\<close>

text \<open>
  Modelled from the spec: \<^verbatim>\<open>_.camelCase\<close> of lodash is not in the repository's sources.
  Section 4.4 of the specification: the phrase is converted to a compact camel-style
  identifier, non-alphanumeric run boundaries become word breaks, the first word is
  lower-cased, subsequent words are capitalized.
\<close>

definition is_alnum :: "char \<Rightarrow> bool" where
  "is_alnum c =
     (c \<in> set ''abcdefghijklmnopqrstuvwxyzABCDEFGHIJKLMNOPQRSTUVWXYZ0123456789'')"

fun words_from :: "string \<Rightarrow> string \<Rightarrow> string list" where
  "words_from cur [] = (if cur = [] then [] else [cur])"
| "words_from cur (c # s) =
     (if is_alnum c then words_from (cur @ [c]) s
      else if cur = [] then words_from [] s
      else cur # words_from [] s)"

definition upper_unit :: "char \<Rightarrow> char" where
  "upper_unit c = (case map_of (zip lower_units upper_units) c of Some u \<Rightarrow> u | None \<Rightarrow> c)"

definition capitalize :: "string \<Rightarrow> string" where
  "capitalize w = (case toLowerCase w of [] \<Rightarrow> [] | c # r \<Rightarrow> upper_unit c # r)"

definition camelCase :: "string \<Rightarrow> string" where
  "camelCase s =
     (case words_from [] s of
        [] \<Rightarrow> []
      | w # ws \<Rightarrow> toLowerCase w @ concat (map capitalize ws))"

section \<open>The file system\<close>

text \<open>
  The calls of \<^verbatim>\<open>fs-extra\<close> the React adapter makes, on a file system that maps a path
  to the text of the file there. A write to a path listed in \<open>unwritable\<close> is rejected
  and changes nothing; \<^verbatim>\<open>fs.copy\<close> overwrites its destination and is rejected when the
  source is missing.
\<close>

record filesystem =
  files :: "string \<Rightarrow> string option"
  unwritable :: "string list"

definition fs_pathExists :: "filesystem \<Rightarrow> string \<Rightarrow> bool" where
  "fs_pathExists fs path = (files fs path \<noteq> None)"

definition fs_readFile :: "filesystem \<Rightarrow> string \<Rightarrow> js_error + string" where
  "fs_readFile fs path = (case files fs path of None \<Rightarrow> Inl FsError | Some text \<Rightarrow> Inr text)"

definition fs_copy :: "filesystem \<Rightarrow> string \<Rightarrow> string \<Rightarrow> js_error + filesystem" where
  "fs_copy fs src dest =
     (case files fs src of
        None \<Rightarrow> Inl FsError
      | Some text \<Rightarrow>
          if dest \<in> set (unwritable fs) then Inl FsError
          else Inr (fs\<lparr>files := (files fs)(dest \<mapsto> text)\<rparr>))"

definition fs_writeFile :: "filesystem \<Rightarrow> string \<Rightarrow> string \<Rightarrow> js_error + filesystem" where
  "fs_writeFile fs path text =
     (if path \<in> set (unwritable fs) then Inl FsError
      else Inr (fs\<lparr>files := (files fs)(path \<mapsto> text)\<rparr>))"

section \<open>Regular expressions and replacement\<close>

text \<open>
  The character classes \<^verbatim>\<open>\s\<close>, \<^verbatim>\<open>\w\<close> and the line terminators that \<^verbatim>\<open>.\<close> excludes,
  on code units below 256.
\<close>

definition is_space :: "char \<Rightarrow> bool" where
  "is_space c = (c \<in> set [CHR 0x09, CHR 0x0A, CHR 0x0B, CHR 0x0C, CHR 0x0D, CHR 0x20, CHR 0xA0])"

definition is_word :: "char \<Rightarrow> bool" where
  "is_word c = (is_alnum c \<or> c = CHR ''_'')"

definition is_line_terminator :: "char \<Rightarrow> bool" where
  "is_line_terminator c = (c = CHR 0x0A \<or> c = CHR 0x0D)"

text \<open>
  \<open>strip_prefix p s\<close> is the rest of \<open>s\<close> after the literal \<open>p\<close>, if \<open>s\<close> starts with it;
  \<open>index_of pat s\<close> is \<^verbatim>\<open>s.indexOf(pat)\<close>, \<open>None\<close> for \<^verbatim>\<open>-1\<close>.
\<close>

fun strip_prefix :: "string \<Rightarrow> string \<Rightarrow> string option" where
  "strip_prefix [] s = Some s"
| "strip_prefix (p # ps) [] = None"
| "strip_prefix (p # ps) (c # s) = (if p = c then strip_prefix ps s else None)"

fun index_of :: "string \<Rightarrow> string \<Rightarrow> nat option" where
  "index_of pat [] = (if pat = [] then Some 0 else None)"
| "index_of pat (c # s) =
     (if starts_with (c # s) pat then Some 0 else map_option Suc (index_of pat s))"

text \<open>
  A regular expression is given by its anchored matcher \<open>here\<close>: on a text, the length of
  the match that starts at its first character together with the capture groups, or
  \<open>None\<close>. \<open>regex_search\<close> is the search of a regular expression without the \<^verbatim>\<open>g\<close> flag:
  the leftmost position with a match; it returns the text before the match, the match,
  and the text from the start of the match on.
\<close>

fun regex_search :: "(string \<Rightarrow> 'm option) \<Rightarrow> string \<Rightarrow> (string \<times> 'm \<times> string) option" where
  "regex_search here [] = map_option (\<lambda>m. ([], m, [])) (here [])"
| "regex_search here (c # s) =
     (case here (c # s) of
        Some m \<Rightarrow> Some ([], m, c # s)
      | None \<Rightarrow> map_option (\<lambda>r. (c # fst r, snd r)) (regex_search here s))"

text \<open>
  The standard's GetSubstitution, which expands the replacement text of
  \<^verbatim>\<open>String.prototype.replace\<close>: \<^verbatim>\<open>$$\<close> is a dollar sign, \<^verbatim>\<open>$&\<close> the match, \<^verbatim>\<open>$`\<close> the text
  before the match, \<^verbatim>\<open>$'\<close> the text after it, \<^verbatim>\<open>$n\<close> and \<^verbatim>\<open>$nn\<close> the capture group of that
  number when the expression has one (two digits are tried first); every other character,
  and a dollar sign in any other place, stands for itself. None of the expressions here
  has named groups.
\<close>

definition capture :: "string list \<Rightarrow> nat \<Rightarrow> string option" where
  "capture caps n = (if 1 \<le> n \<and> n \<le> length caps then Some (caps ! (n - 1)) else None)"

fun get_substitution :: "string \<Rightarrow> string \<Rightarrow> string \<Rightarrow> string list \<Rightarrow> string \<Rightarrow> string" where
  "get_substitution matched before after caps [] = []"
| "get_substitution matched before after caps [c] = [c]"
| "get_substitution matched before after caps (c # d # t) =
     (if c \<noteq> CHR ''$'' then c # get_substitution matched before after caps (d # t)
      else if d = CHR ''$'' then CHR ''$'' # get_substitution matched before after caps t
      else if d = CHR ''&'' then matched @ get_substitution matched before after caps t
      else if d = CHR 0x60 then before @ get_substitution matched before after caps t
      else if d = CHR 0x27 then after @ get_substitution matched before after caps t
      else if is_digit d then
        (case t of
           [] \<Rightarrow>
             (case capture caps (digit_value d) of
                Some g \<Rightarrow> g
              | None \<Rightarrow> [c, d])
         | e # t' \<Rightarrow>
             (case (if is_digit e then capture caps (10 * digit_value d + digit_value e) else None) of
                Some g \<Rightarrow> g @ get_substitution matched before after caps t'
              | None \<Rightarrow>
                  (case capture caps (digit_value d) of
                     Some g \<Rightarrow> g @ get_substitution matched before after caps (e # t')
                   | None \<Rightarrow> c # d # get_substitution matched before after caps (e # t'))))
      else c # get_substitution matched before after caps (d # t))"

text \<open>\<^verbatim>\<open>content.replace(regex, template)\<close> with a string template.\<close>

definition js_replace :: "(string \<Rightarrow> (nat \<times> string list) option) \<Rightarrow> string \<Rightarrow> string \<Rightarrow> string" where
  "js_replace here template content =
     (case regex_search here content of
        None \<Rightarrow> content
      | Some (before, (n, caps), rest) \<Rightarrow>
          before @ get_substitution (take n rest) before (drop n rest) caps template @ drop n rest)"

text \<open>\<^verbatim>\<open>s.replace(pat, '')\<close> with a string pattern: the first occurrence is removed.\<close>

definition remove_first :: "string \<Rightarrow> string \<Rightarrow> string" where
  "remove_first pat s =
     (case index_of pat s of None \<Rightarrow> s | Some k \<Rightarrow> take k s @ drop (k + length pat) s)"

text \<open>
  \<^verbatim>\<open>new RegExp(`const\\s+${language}Translations\\s*=\\s*\\{[\\s\\S]*?\\};`)\<close>, for a
  language code that holds no character special in a regular expression and no white
  space (letters, digits, hyphen, underscore): the code is then a literal. After
  \<^verbatim>\<open>\s+\<close> and \<^verbatim>\<open>\s*\<close> comes a literal that starts with a character that is no white
  space, so each takes the whole run of white space; the lazy \<^verbatim>\<open>[\s\S]*?\<close> ends at the
  first \<^verbatim>\<open>};\<close> after the opening brace.
\<close>

definition langRegex :: "string \<Rightarrow> string \<Rightarrow> (nat \<times> string list) option" where
  "langRegex language s =
     (case strip_prefix ''const'' s of
        None \<Rightarrow> None
      | Some r1 \<Rightarrow>
          if takeWhile is_space r1 = [] then None
          else
            (case strip_prefix (language @ ''Translations'') (dropWhile is_space r1) of
               None \<Rightarrow> None
             | Some r2 \<Rightarrow>
                 (case strip_prefix ''='' (dropWhile is_space r2) of
                    None \<Rightarrow> None
                  | Some r3 \<Rightarrow>
                      (case strip_prefix ''{'' (dropWhile is_space r3) of
                         None \<Rightarrow> None
                       | Some r4 \<Rightarrow>
                           (case index_of ''};'' r4 of
                              None \<Rightarrow> None
                            | Some k \<Rightarrow> Some (length s - length r4 + k + 2, []))))))"

text \<open>
  \<^verbatim>\<open>/(const \w+Translations = {[\s\S]*?};)([\s\S]*?)(i18n)/\<close>.
  \<^verbatim>\<open>\w+\<close> is followed by the literal \<^verbatim>\<open>Translations = {\<close>, whose thirteenth character is
  a blank: the run of word characters after \<^verbatim>\<open>const \<close> must end with \<^verbatim>\<open>Translations\<close>,
  with at least one character before it. The first group ends at the first \<^verbatim>\<open>};\<close>, the
  second at the first \<^verbatim>\<open>i18n\<close> after that; when there is none after the first \<^verbatim>\<open>};\<close>
  there is none after a later one.
\<close>

definition anyTranslationsRegex :: "string \<Rightarrow> (nat \<times> string list) option" where
  "anyTranslationsRegex s =
     (case strip_prefix ''const '' s of
        None \<Rightarrow> None
      | Some r1 \<Rightarrow>
          (let run = takeWhile is_word r1 in
           if 12 < length run \<and> drop (length run - 12) run = ''Translations'' then
             (case strip_prefix '' = {'' (dropWhile is_word r1) of
                None \<Rightarrow> None
              | Some r2 \<Rightarrow>
                  (case index_of ''};'' r2 of
                     None \<Rightarrow> None
                   | Some k \<Rightarrow>
                       (let n1 = length s - length r2 + k + 2; r3 = drop (k + 2) r2 in
                        case index_of ''i18n'' r3 of
                          None \<Rightarrow> None
                        | Some j \<Rightarrow> Some (n1 + j + 4, [take n1 s, take j r3, ''i18n'']))))
           else None))"

text \<open>
  \<^verbatim>\<open>/(resources: {\s*.*?\s*en: {[\s\S]*?})(,?\s*)(})/\<close>.
  After \<^verbatim>\<open>resources: {\<close> and its white space, the lazy \<^verbatim>\<open>.*?\<close> takes as few characters
  as possible (none of them a line terminator) such that, after the white space that
  follows, the text goes on with \<^verbatim>\<open>en: {\<close>: \<open>find_en\<close> returns the text after that.
  Then \<open>close_en\<close> finds the first \<^verbatim>\<open>}\<close> after which an optional comma and white space
  lead to another \<^verbatim>\<open>}\<close>; it returns the position of the first and the length of the second
  group. A shorter first run of white space reaches no other \<^verbatim>\<open>en: {\<close>, and if no
  closing pair follows the first \<^verbatim>\<open>en: {\<close> none follows a later one.
\<close>

fun find_en :: "string \<Rightarrow> string option" where
  "find_en [] = strip_prefix ''en: {'' []"
| "find_en (c # r) =
     (case strip_prefix ''en: {'' (dropWhile is_space (c # r)) of
        Some rest \<Rightarrow> Some rest
      | None \<Rightarrow> if is_line_terminator c then None else find_en r)"

definition close_tail :: "string \<Rightarrow> nat option" where
  "close_tail t =
     (let t1 = (case t of [] \<Rightarrow> t | c # t' \<Rightarrow> if c = CHR '','' then t' else t) in
      if starts_with (dropWhile is_space t1) ''}''
      then Some (length t - length t1 + length (takeWhile is_space t1))
      else None)"

fun close_en :: "string \<Rightarrow> (nat \<times> nat) option" where
  "close_en [] = None"
| "close_en (c # s) =
     (case (if c = CHR ''}'' then close_tail s else None) of
        Some g \<Rightarrow> Some (0, g)
      | None \<Rightarrow> map_option (\<lambda>r. (Suc (fst r), snd r)) (close_en s))"

definition resourcesRegex :: "string \<Rightarrow> (nat \<times> string list) option" where
  "resourcesRegex s =
     (case strip_prefix ''resources: {'' s of
        None \<Rightarrow> None
      | Some r1 \<Rightarrow>
          (case find_en (dropWhile is_space r1) of
             None \<Rightarrow> None
           | Some r3 \<Rightarrow>
               (case close_en r3 of
                  None \<Rightarrow> None
                | Some (k, g) \<Rightarrow>
                    (let n1 = length s - length r3 + k + 1 in
                     Some (n1 + g + 1, [take n1 s, take g (drop n1 s), ''}''])))))"

section \<open>Merging the translations\<close>

text \<open>
  \<open>truthy\<close> is JavaScript's ToBoolean. \<open>own_properties v\<close> are the own enumerable
  properties the spread \<^verbatim>\<open>{...v}\<close> copies: those of an object, the indexed elements of
  an array or string, none of a number, a boolean or \<^verbatim>\<open>null\<close>. \<open>assign_all target props\<close>
  assigns them to \<open>target\<close> in order, and \<open>spread_object v\<close> is \<^verbatim>\<open>{...v}\<close>.
\<close>

definition truthy :: "json \<Rightarrow> bool" where
  "truthy v =
     (case v of
        JNull \<Rightarrow> False
      | JBool b \<Rightarrow> b
      | JNum n \<Rightarrow> n \<noteq> 0
      | JStr s \<Rightarrow> s \<noteq> []
      | _ \<Rightarrow> True)"

definition assign_all :: "(string \<times> json) list \<Rightarrow> (string \<times> json) list \<Rightarrow> (string \<times> json) list" where
  "assign_all target props = foldl (\<lambda>obj p. obj_set (fst p) (snd p) obj) target props"

definition own_properties :: "json \<Rightarrow> (string \<times> json) list" where
  "own_properties v =
     (case v of
        JObj ps \<Rightarrow> ps
      | JArr xs \<Rightarrow> zip (map decimal [0..<length xs]) xs
      | JStr s \<Rightarrow> zip (map decimal [0..<length s]) (map (\<lambda>c. JStr [c]) s)
      | _ \<Rightarrow> [])"

definition spread_object :: "json \<Rightarrow> (string \<times> json) list" where
  "spread_object v = assign_all [] (own_properties v)"

text \<open>
  The body of \<^verbatim>\<open>Object.keys(translations).forEach\<close>:
  \<^verbatim>\<open>mergedTranslations[namespace] = {...(mergedTranslations[namespace] || {}), ...translations[namespace]}\<close>,
  and the merge that starts from \<^verbatim>\<open>{...existingTranslations}\<close>.
\<close>

definition merge_namespace :: "(string \<times> json) list \<Rightarrow> string \<times> json \<Rightarrow> (string \<times> json) list" where
  "merge_namespace mergedTranslations entry =
     (case entry of (namespace, new) \<Rightarrow>
        obj_set namespace
          (JObj (assign_all
             (spread_object
                (case map_of mergedTranslations namespace of
                   Some old \<Rightarrow> if truthy old then old else JObj []
                 | None \<Rightarrow> JObj []))
             (own_properties new)))
          mergedTranslations)"

definition merge_translations :: "json \<Rightarrow> (string \<times> json) list \<Rightarrow> (string \<times> json) list" where
  "merge_translations existingTranslations translations =
     foldl merge_namespace (spread_object existingTranslations) translations"

section \<open>updateTranslations of the React adapter\<close>

text \<open>
  \<^verbatim>\<open>`const ${language}Translations = ${JSON.stringify(obj, null, 2)};`\<close>, and the label of
  the comment line for a new language.
\<close>

definition const_declaration :: "string \<Rightarrow> (string \<times> json) list \<Rightarrow> string" where
  "const_declaration language obj =
     ''const '' @ language @ ''Translations = '' @ stringify2 [] (JObj obj) @ '';''"

definition language_label :: "string \<Rightarrow> string" where
  "language_label language =
     (if language = ''es'' then ''Spanish''
      else if language = ''zh'' then ''Chinese''
      else if language = ''hi'' then ''Hindi''
      else language)"

text \<open>
  The new text of the resource file (the \<^verbatim>\<open>if\<close> statement over \<^verbatim>\<open>langRegex.test(content)\<close>).
  \<open>translations\<close> is an object, given by its properties. \<open>evalFn\<close> stands for the
  JavaScript engine: applied to the body of \<^verbatim>\<open>new Function(...)\<close> it gives the value the
  function returns, or what constructing or calling it throws. When the file has a block
  for the language: under \<open>forceAll\<close> the block is replaced by the declaration of
  \<open>translations\<close>; otherwise the block, without the first occurrence of
  \<^verbatim>\<open>const <language>Translations =\<close>, is evaluated, and the block is replaced by the
  declaration of the merge, or, when the evaluation throws, by the declaration of
  \<open>translations\<close>. When the file has no block for the language, a declaration is
  inserted after the first block of any language and an entry is added to
  \<^verbatim>\<open>resources\<close>.
\<close>

definition updatedContent ::
  "(string \<Rightarrow> js_error + json) \<Rightarrow> (string \<times> json) list \<Rightarrow> string \<Rightarrow> bool \<Rightarrow> string \<Rightarrow> string" where
  "updatedContent evalFn translations language forceAll content =
     (case regex_search (langRegex language) content of
        Some (before, (n, caps), rest) \<Rightarrow>
          if forceAll then
            js_replace (langRegex language) (const_declaration language translations) content
          else
            (case evalFn (''return ''
                    @ remove_first (''const '' @ language @ ''Translations ='') (take n rest)) of
               Inr existingTranslations \<Rightarrow>
                 js_replace (langRegex language)
                   (const_declaration language (merge_translations existingTranslations translations))
                   content
             | Inl err \<Rightarrow>
                 js_replace (langRegex language) (const_declaration language translations) content)
      | None \<Rightarrow>
          js_replace resourcesRegex
            (''$1,\<newline>      '' @ language @ '': {\<newline>        translation: '' @ language
               @ ''Translations\<newline>      }$3'')
            (js_replace anyTranslationsRegex
               (''$1\<newline>\<newline>// '' @ language_label language @ '' translations\<newline>''
                  @ const_declaration language translations @ ''$2$3'')
               content))"

text \<open>
  \<^verbatim>\<open>updateTranslations(structure, translations, language, forceAll)\<close>, with
  \<^verbatim>\<open>structure.i18nFile\<close> as \<open>i18nFile\<close> and \<^verbatim>\<open>Date.now()\<close> as \<open>now\<close>. The result is the
  returned \<^verbatim>\<open>true\<close> or the error thrown, and the file system as the call leaves it.
\<close>

definition updateTranslations ::
  "(string \<Rightarrow> js_error + json) \<Rightarrow> nat \<Rightarrow> string \<Rightarrow> (string \<times> json) list \<Rightarrow> string \<Rightarrow> bool
     \<Rightarrow> filesystem \<Rightarrow> (js_error + bool) \<times> filesystem" where
  "updateTranslations evalFn now i18nFile translations language forceAll fs =
     (if \<not> fs_pathExists fs i18nFile
      then (Inl (Error (''i18n file not found: '' @ i18nFile)), fs)
      else
        (case fs_readFile fs i18nFile of
           Inl err \<Rightarrow> (Inl err, fs)
         | Inr content \<Rightarrow>
             (let new = updatedContent evalFn translations language forceAll content;
                  backupPath = i18nFile @ ''.backup-'' @ decimal now
              in case fs_copy fs i18nFile backupPath of
                   Inl err \<Rightarrow> (Inl err, fs)
                 | Inr fs1 \<Rightarrow>
                     (case fs_writeFile fs1 i18nFile new of
                        Inl err \<Rightarrow> (Inl err, fs1)
                      | Inr fs2 \<Rightarrow> (Inr True, fs2)))))"

section \<open>Example resource files\<close>

text \<open>
  A resource file with a Spanish block \<^verbatim>\<open>{common: {a: "x"}}\<close> as \<^verbatim>\<open>updateTranslations\<close>
  writes it, the same block written without blanks, two file systems that hold the first
  file (in the second the backup path cannot be written), one that holds the second file,
  and an evaluator that knows the value of the first block and rejects every other text.
\<close>

definition es_block_file :: string where
  \<open>es_block_file =
     ''const esTranslations = {\<newline>  "common": {\<newline>    "a": "x"\<newline>  }\<newline>};\<newline>i18n''\<close>

definition es_tight_file :: string where
  \<open>es_tight_file = ''const esTranslations={"common":{"a":"x"}};\<newline>i18n''\<close>

definition fs0 :: filesystem where
  "fs0 = \<lparr>files = (\<lambda>p. None)(''src/i18n.js'' \<mapsto> es_block_file), unwritable = []\<rparr>"

definition fs_locked :: filesystem where
  "fs_locked = \<lparr>files = (\<lambda>p. None)(''src/i18n.js'' \<mapsto> es_block_file),
                 unwritable = [''src/i18n.js.backup-1730613600000'']\<rparr>"

definition fs_tight :: filesystem where
  "fs_tight = \<lparr>files = (\<lambda>p. None)(''src/i18n.js'' \<mapsto> es_tight_file), unwritable = []\<rparr>"

definition es_block_eval :: "string \<Rightarrow> js_error + json" where
  \<open>es_block_eval body =
     (if body = ''return  {\<newline>  "common": {\<newline>    "a": "x"\<newline>  }\<newline>};''
      then Inr (JObj [(''common'', JObj [(''a'', JStr ''x'')])])
      else Inl SyntaxError)\<close>

section \<open>Properties\<close>

subsection \<open>Classification\<close>

lemma categorize_Submit_Error: "categorize ''Submit Error'' = ''errors''"
  by (simp add: categorize_def toLowerCase_def lower_unit_def upper_units_def lower_units_def)

lemma categorize_rules: "categorize s = classify_by_rules s"
  by (simp add: categorize_def classify_by_rules_def classifier_rules_def contains_ci_def Let_def)

text \<open>
  C6. The bucket a phrase falls into is a function of the phrase text alone, and it is the
  one the ordered rule list gives with the first matching rule winning: errors before
  navigation before forms before messages, then \<open>common\<close> for fewer than 20 characters,
  then \<open>components\<close>. \<open>Submit Error\<close> is classified as \<open>errors\<close>, although it also contains
  the forms keyword \<open>submit\<close>.
\<close>

theorem C6_classification_first_match:
  "categorize s = classify_by_rules s
   \<and> categorize ''Submit Error'' = ''errors''
   \<and> contains_ci ''Submit Error'' ''submit''"
proof -
  have "contains_ci ''Submit Error'' ''submit''"
    by (simp add: contains_ci_def toLowerCase_def lower_unit_def upper_units_def lower_units_def)
  with categorize_rules [of s] categorize_Submit_Error show ?thesis
    by blast
qed

theorem C6_classification_witness:
  "categorize ''Save failed'' = classify_by_rules ''Save failed''
   \<and> classify_by_rules ''Save failed'' = ''errors''"
  using C6_classification_first_match [of "''Save failed''"]
  by (simp add: categorize_def toLowerCase_def lower_unit_def upper_units_def lower_units_def)

subsection \<open>Batching\<close>

lemma chunks_of_Nil [simp]: "chunks_of n [] = []"
  by (subst chunks_of.simps) simp

lemma concat_chunks_of: "0 < n \<Longrightarrow> concat (chunks_of n xs) = xs"
proof (induction n xs rule: chunks_of.induct)
  case (1 n xs)
  then show ?case by (subst chunks_of.simps) auto
qed

lemma chunks_of_bounds: "c \<in> set (chunks_of n xs) \<Longrightarrow> c \<noteq> [] \<and> length c \<le> n"
proof (induction n xs rule: chunks_of.induct)
  case (1 n xs)
  show ?case
  proof (cases "n = 0 \<or> xs = []")
    case True
    with "1.prems" show ?thesis by (subst (asm) chunks_of.simps) simp
  next
    case False
    with "1.prems" have "c = take n xs \<or> c \<in> set (chunks_of n (drop n xs))"
      by (subst (asm) chunks_of.simps) simp
    with False "1.IH" show ?thesis by auto
  qed
qed

lemma intersperse_Cons:
  "intersperse sep (x # xs) = x # (if xs = [] then [] else sep # intersperse sep xs)"
  by (cases xs) auto

lemma js_slice_chunk:
  "0 \<le> i \<Longrightarrow> 0 < b \<Longrightarrow> js_slice xs i (i + b) = take (nat b) (drop (nat i) xs)"
  by (auto simp: js_slice_def Let_def min_def max_def)

lemma loop_elementwise:
  assumes B: "0 < B" and f: "\<And>c w. fst (processFn c w) = Inr (JArr (map g c))"
  shows "0 \<le> i \<Longrightarrow>
    processBatches_loop processFn B d items i (res, log, w) =
      Some (Inr (res @ map g (drop (nat i) items)),
            log @ intersperse (Pause d) (map Invoke (chunks_of (nat B) (drop (nat i) items))),
            fold (\<lambda>c w. snd (processFn c w)) (chunks_of (nat B) (drop (nat i) items)) w)"
proof (induction "length items - nat i" arbitrary: i res log w rule: less_induct)
  case less
  show ?case
  proof (cases "i < int (length items)")
    case False
    with less.prems have "drop (nat i) items = []" by simp
    with False show ?thesis
      by (subst processBatches_loop.simps) simp
  next
    case True
    define rest where "rest = drop (nat i) items"
    define batch where "batch = take (nat B) rest"
    define tl where "tl = drop (nat B) rest"
    obtain r w' where pf: "processFn batch w = (r, w')" by (cases "processFn batch w")
    with f [of batch w] have r: "r = Inr (JArr (map g batch))" by simp
    have ne: "rest \<noteq> []" using True less.prems by (simp add: rest_def)
    have nxt: "drop (nat (i + B)) items = tl"
      using less.prems B by (simp add: tl_def rest_def nat_add_distrib add.commute)
    have lt: "length items - nat (i + B) < length items - nat i"
      using True less.prems B by linarith
    have more: "(i + B < int (length items)) = (tl \<noteq> [])"
      using less.prems B by (auto simp: tl_def rest_def)
    have slice: "js_slice items i (i + B) = batch"
      using less.prems B by (simp add: js_slice_chunk batch_def rest_def)
    have step: "processBatches_loop processFn B d items i (res, log, w) =
        processBatches_loop processFn B d items (i + B)
          (res @ map g batch,
           log @ [Invoke batch] @ (if tl \<noteq> [] then [Pause d] else []), w')"
      by (subst processBatches_loop.simps)
         (simp add: True Let_def slice pf r spread_iterable_def more)
    have ih: "processBatches_loop processFn B d items (i + B) (res', log', w') =
      Some (Inr (res' @ map g tl),
            log' @ intersperse (Pause d) (map Invoke (chunks_of (nat B) tl)),
            fold (\<lambda>c w. snd (processFn c w)) (chunks_of (nat B) tl) w')"
      for res' log'
      using less.hyps [OF lt, of res' log' w'] less.prems B nxt by simp
    have ch: "chunks_of (nat B) rest = batch # chunks_of (nat B) tl"
      using ne B by (subst chunks_of.simps) (simp add: batch_def tl_def)
    have ch0: "(chunks_of (nat B) tl = []) = (tl = [])"
      using B by (subst chunks_of.simps) simp
    have mp: "map g batch @ map g tl = map g rest"
      unfolding batch_def tl_def by (metis append_take_drop_id map_append)
    have w': "w' = snd (processFn batch w)" using pf by simp
    show ?thesis
      unfolding step ih rest_def [symmetric] ch
      by (simp add: intersperse_Cons ch0 mp w')
  qed
qed

text \<open>
  C2. For a batch size of at least 1 and a per-batch function that answers every chunk
  with the array of its elements' images, in order, \<^verbatim>\<open>processBatches\<close> returns; it has
  called the function once per chunk of \<open>chunks_of B P\<close>, one after the other (each call
  starts in the world the previous one left), with one pause of the configured delay
  between two consecutive calls and none after the last; the chunks are consecutive
  pieces of \<open>P\<close> of at most \<open>B\<close> elements; the result is the images of \<open>P\<close> in the order
  of \<open>P\<close>. Left out, the batch size is 15 and the delay 2000 ms. (The claim's bound
  \<open>B \<le> length P\<close> is not needed.)
\<close>

theorem C2_processBatches_order:
  assumes "1 \<le> B" and "\<And>c w. fst (processFn c w) = Inr (JArr (map g c))"
  shows "processBatches P processFn (Some B) (Some d) w =
           Some (Inr (map g P),
                 intersperse (Pause d) (map Invoke (chunks_of (nat B) P)),
                 fold (\<lambda>c w. snd (processFn c w)) (chunks_of (nat B) P) w)
         \<and> concat (chunks_of (nat B) P) = P
         \<and> list_all (\<lambda>c. c \<noteq> [] \<and> length c \<le> nat B) (chunks_of (nat B) P)
         \<and> processBatches P processFn None None w =
             processBatches P processFn (Some 15) (Some 2000) w"
proof -
  from assms(1) have B: "0 < B" by simp
  have "processBatches P processFn (Some B) (Some d) w =
           Some (Inr (map g P),
                 intersperse (Pause d) (map Invoke (chunks_of (nat B) P)),
                 fold (\<lambda>c w. snd (processFn c w)) (chunks_of (nat B) P) w)"
    using loop_elementwise [OF B assms(2), where i = 0 and d = d and items = P
        and res = "[]" and log = "[]" and w = w]
    by (simp add: processBatches_def)
  moreover have "concat (chunks_of (nat B) P) = P"
    using B by (simp add: concat_chunks_of)
  moreover have "list_all (\<lambda>c. c \<noteq> [] \<and> length c \<le> nat B) (chunks_of (nat B) P)"
    using chunks_of_bounds [of _ "nat B" P] by (auto simp: list_all_iff)
  moreover have "processBatches P processFn None None w =
             processBatches P processFn (Some 15) (Some 2000) w"
    by (simp add: processBatches_def)
  ultimately show ?thesis by blast
qed

theorem C2_processBatches_witness:
  "processBatches [''a'', ''b'', ''c''] (\<lambda>c n. (Inr (JArr (map JStr c)), Suc n))
       (Some 2) (Some 2000) (0::nat) =
     Some (Inr [JStr ''a'', JStr ''b'', JStr ''c''],
           [Invoke [''a'', ''b''], Pause 2000, Invoke [''c'']], 2)"
  using C2_processBatches_order
    [where B = 2 and processFn = "\<lambda>c n. (Inr (JArr (map JStr c)), Suc n)" and g = JStr
       and P = "[''a'', ''b'', ''c'']" and d = 2000 and w = "0::nat"]
  by (simp add: chunks_of.simps)

subsection \<open>Evaluation\<close>

lemmas str_eval = toLowerCase_def lower_unit_def upper_units_def lower_units_def upper_unit_def
  capitalize_def camelCase_def is_alnum_def deriveKey_def
lemmas obj_eval = obj_set_def is_array_index_def is_digit_def digits_value_def digit_value_def
lemmas json_eval = quote_def quote_unit_def show_int_def const_declaration_def
lemmas regex_eval = js_replace_def langRegex_def is_space_def is_word_def is_alnum_def
  is_line_terminator_def capture_def remove_first_def is_digit_def digit_value_def
  anyTranslationsRegex_def resourcesRegex_def close_tail_def language_label_def
lemmas merge_eval = merge_translations_def merge_namespace_def spread_object_def assign_all_def
  own_properties_def truthy_def
lemmas fs_eval = fs_pathExists_def fs_readFile_def fs_copy_def fs_writeFile_def

subsection \<open>Empty input\<close>

text \<open>
  C8. With no phrase collection or an empty one, \<^verbatim>\<open>translateStrings\<close> returns the empty
  mapping at once, whatever the language, the key and the service: nothing was sent (the
  log of calls is empty, and the outside world is in the state it was in).
\<close>

theorem C8_empty_input_short_circuit:
  "translateStrings axios_post JSON_parse cc None targetLang apiKey service w
     = Some (Inr (JObj []), [], w)
   \<and> translateStrings axios_post JSON_parse cc (Some []) targetLang apiKey service w
     = Some (Inr (JObj []), [], w)"
  by (simp add: translateStrings_def)

theorem C8_empty_input_witness:
  "translateStrings (\<lambda>req n. (Inl (AxiosError None), Suc n)) (\<lambda>t. Inl SyntaxError) camelCase
      (Some []) ''es'' ''k'' (Some ''gemini'') (0::nat)
     = Some (Inr (JObj []), [], 0)"
  using C8_empty_input_short_circuit
    [where axios_post = "\<lambda>req n. (Inl (AxiosError None), Suc n)" and w = "0::nat"]
  by simp

subsection \<open>Regrouping\<close>

lemma regroup_from_zip:
  "idx \<le> length im \<Longrightarrow>
   regroup_from cc im idx ts obj =
     (if idx + length ts \<le> length im
      then Inr (foldl (\<lambda>obj p. assign_translation cc obj (fst p) (snd p)) obj (zip (drop idx im) ts))
      else Inl TypeError)"
proof (induction ts arbitrary: idx obj)
  case Nil
  then show ?case by simp
next
  case (Cons t ts)
  show ?case
  proof (cases "idx < length im")
    case True
    then have d: "drop idx im = im ! idx # drop (Suc idx) im"
      by (simp add: Cons_nth_drop_Suc)
    from True have "Suc idx \<le> length im" by simp
    from Cons.IH [OF this] True show ?thesis by (simp add: d)
  next
    case False
    then show ?thesis by simp
  qed
qed

lemma map_fst_push_to: "map fst (push_to ns s nss) = map fst nss"
  by (induction nss) (auto simp: push_to_def)

lemma length_index_map: "length (index_map nss) = sum_list (map (\<lambda>b. length (snd b)) nss)"
  by (induction nss) (auto simp: index_map_def)

lemma push_to_absent: "ns \<notin> set (map fst nss) \<Longrightarrow> push_to ns s nss = nss"
  by (induction nss) (auto simp: push_to_def)

lemma total_push_to:
  "distinct (map fst nss) \<Longrightarrow> ns \<in> set (map fst nss) \<Longrightarrow>
   sum_list (map (\<lambda>b. length (snd b)) (push_to ns s nss))
     = Suc (sum_list (map (\<lambda>b. length (snd b)) nss))"
proof (induction nss)
  case Nil
  then show ?case by simp
next
  case (Cons b nss)
  show ?case
  proof (cases "fst b = ns")
    case True
    with Cons.prems have "ns \<notin> set (map fst nss)" by auto
    then have "push_to ns s nss = nss" by (rule push_to_absent)
    then have "push_to ns s (b # nss) = (fst b, snd b @ [s]) # nss"
      using True by (simp add: push_to_def)
    then show ?thesis by simp
  next
    case False
    with Cons.prems have "ns \<in> set (map fst nss)" and "distinct (map fst nss)" by auto
    with Cons.IH have "sum_list (map (\<lambda>b. length (snd b)) (push_to ns s nss))
        = Suc (sum_list (map (\<lambda>b. length (snd b)) nss))" by simp
    moreover have "push_to ns s (b # nss) = b # push_to ns s nss"
      using False by (simp add: push_to_def)
    ultimately show ?thesis by simp
  qed
qed

lemma categorize_bucket: "categorize s \<in> set (map fst empty_namespaces)"
  by (simp add: categorize_def empty_namespaces_def Let_def)

lemma group_fold_total:
  "map fst nss = map fst empty_namespaces \<Longrightarrow>
   map fst (foldl (\<lambda>namespaces str. push_to (categorize str) str namespaces) nss strs)
     = map fst empty_namespaces
   \<and> sum_list (map (\<lambda>b. length (snd b))
        (foldl (\<lambda>namespaces str. push_to (categorize str) str namespaces) nss strs))
     = sum_list (map (\<lambda>b. length (snd b)) nss) + length strs"
proof (induction strs arbitrary: nss)
  case Nil
  then show ?case by simp
next
  case (Cons s strs)
  have d: "distinct (map fst nss)"
    unfolding Cons.prems by (simp add: empty_namespaces_def)
  have m: "categorize s \<in> set (map fst nss)"
    unfolding Cons.prems by (rule categorize_bucket)
  have f: "map fst (push_to (categorize s) s nss) = map fst empty_namespaces"
    using Cons.prems by (simp add: map_fst_push_to)
  from Cons.IH [OF f] total_push_to [OF d m, of s] show ?case by simp
qed

lemma length_index_map_group: "length (index_map (group_strings strs)) = length strs"
  using group_fold_total [of empty_namespaces strs]
  by (simp add: length_index_map group_strings_def) (simp add: empty_namespaces_def)


subsection \<open>No alignment check\<close>

text \<open>
  Two phrases are sent in one batch and the provider answers with one translation: the
  call returns a mapping with one entry. It does not fail.
\<close>

theorem C1_short_response_counterexample:
  \<open>translateStrings (\<lambda>req n. (Inr (Some [[''["Inicio"]'']]), Suc n))
       (\<lambda>t. Inr (JArr [JStr ''Inicio''])) camelCase (Some [''Home'', ''Save''])
       ''es'' ''KEY'' None (0::nat)
     = Some (Inr (JObj [(''navigation'', JObj [(''home'', JStr ''Inicio'')])]),
             [Invoke [''Home'', ''Save'']], 1)\<close>
  apply (simp add: translateStrings_def group_strings_def categorize_def str_eval push_to_def
      empty_namespaces_def index_map_def processBatches_def)
  apply (subst processBatches_loop.simps)
  apply (simp add: js_slice_def translateWithGemini_def gemini_result_def bracket_match_def
      spread_iterable_def)
  apply (subst processBatches_loop.simps)
  apply (simp add: assign_translation_def obj_eval as_json_def str_eval)
  done

text \<open>
  C1, as the code has it. \<^verbatim>\<open>translateStrings\<close> does not compare the number of
  translations with the number of phrases. When the batches returned, in total, no more
  translations than there are phrases, the call returns normally the mapping that pairs
  the translations index by index with the first entries of the flattened phrase list, so
  with fewer translations the last phrases are absent from the result; with more
  translations than phrases it fails with a \<open>TypeError\<close>.
\<close>

theorem C1_no_alignment_check:
  assumes "strs \<noteq> []"
    and "processBatches (map snd (index_map (group_strings strs)))
           (\<lambda>batch. translateWithGemini axios_post JSON_parse batch targetLang apiKey)
           None None w
         = Some (Inr translations, log, w')"
  shows "translateStrings axios_post JSON_parse cc (Some strs) targetLang apiKey (Some ''gemini'') w
         = Some (if length translations \<le> length strs
                 then Inr (as_json
                        (foldl (\<lambda>obj p. assign_translation cc obj (fst p) (snd p)) []
                           (zip (index_map (group_strings strs)) translations)))
                 else Inl TypeError,
                 log, w')"
  using assms
  by (simp add: translateStrings_def Let_def regroup_from_zip length_index_map_group)

theorem C1_no_alignment_check_witness:
  \<open>translateStrings (\<lambda>req n. (Inr (Some [[''["Inicio", "Guardar"]'']]), Suc n))
       (\<lambda>t. Inr (JArr [JStr ''Inicio'', JStr ''Guardar''])) camelCase
       (Some [''Home'', ''Save'', ''Loading'']) ''es'' ''KEY'' (Some ''gemini'') (0::nat)
     = Some (Inr (JObj [(''navigation'', JObj [(''home'', JStr ''Inicio'')]),
                        (''messages'', JObj [(''loading'', JStr ''Guardar'')])]),
             [Invoke [''Home'', ''Loading'', ''Save'']], 1)\<close>
proof -
  let ?post = \<open>\<lambda>(req::gemini_request) (n::nat). (Inr (Some [[''["Inicio", "Guardar"]'']]) :: js_error + gemini_data, Suc n)\<close>
  let ?parse = "\<lambda>t::string. Inr (JArr [JStr ''Inicio'', JStr ''Guardar'']) :: js_error + json"
  have im: "index_map (group_strings [''Home'', ''Save'', ''Loading''])
      = [(''navigation'', ''Home''), (''messages'', ''Loading''), (''forms'', ''Save'')]"
    by (simp add: group_strings_def categorize_def str_eval push_to_def empty_namespaces_def
        index_map_def)
  have run: "processBatches (map snd (index_map (group_strings [''Home'', ''Save'', ''Loading''])))
           (\<lambda>batch. translateWithGemini ?post ?parse batch ''es'' ''KEY'') None None (0::nat)
         = Some (Inr [JStr ''Inicio'', JStr ''Guardar''], [Invoke [''Home'', ''Loading'', ''Save'']], 1)"
    unfolding im
    apply (simp add: processBatches_def)
    apply (subst processBatches_loop.simps)
    apply (simp add: js_slice_def translateWithGemini_def gemini_result_def bracket_match_def
        spread_iterable_def)
    apply (subst processBatches_loop.simps)
    apply simp
    done
  show ?thesis
    using C1_no_alignment_check [where cc = camelCase, OF _ run]
    by (simp add: im assign_translation_def obj_eval as_json_def str_eval)
qed

subsection \<open>Key derivation\<close>

lemma words_from_no_alnum:
  "list_all (\<lambda>c. \<not> is_alnum c) s \<Longrightarrow> words_from [] s = []"
  by (induction s) auto

lemma list_all_take: "list_all P s \<Longrightarrow> list_all P (take n s)"
  by (auto simp: list_all_iff dest: in_set_takeD)

text \<open>
  C7. The key of a phrase is the camel-case form of its first 30 characters;
  \<open>Submit Form Now\<close> and \<open>submit form now!!\<close> get the same key; the empty phrase and a
  phrase without any letter or digit get the empty key, and no error.
\<close>

theorem C7_key_derivation:
  "deriveKey cc phrase = cc (take 30 phrase)
   \<and> deriveKey camelCase ''Submit Form Now'' = ''submitFormNow''
   \<and> deriveKey camelCase ''submit form now!!'' = ''submitFormNow''
   \<and> deriveKey camelCase [] = []
   \<and> (list_all (\<lambda>c. \<not> is_alnum c) phrase \<longrightarrow> deriveKey camelCase phrase = [])"
proof -
  have "deriveKey camelCase ''Submit Form Now'' = ''submitFormNow''"
    by (simp add: str_eval)
  moreover have "deriveKey camelCase ''submit form now!!'' = ''submitFormNow''"
    by (simp add: str_eval)
  moreover have "list_all (\<lambda>c. \<not> is_alnum c) phrase \<longrightarrow> deriveKey camelCase phrase = []"
    by (simp add: deriveKey_def camelCase_def words_from_no_alnum list_all_take)
  moreover have "deriveKey camelCase [] = []"
    by (simp add: deriveKey_def camelCase_def)
  ultimately show ?thesis by (simp add: deriveKey_def)
qed

theorem C7_key_derivation_witness:
  "list_all (\<lambda>c. \<not> is_alnum c) ''?!... --'' \<and> deriveKey camelCase ''?!... --'' = []"
proof -
  have punct: "list_all (\<lambda>c. \<not> is_alnum c) ''?!... --''"
    by (simp add: is_alnum_def)
  from C7_key_derivation [where phrase = "''?!... --''" and cc = camelCase]
  have "list_all (\<lambda>c. \<not> is_alnum c) ''?!... --'' \<longrightarrow> deriveKey camelCase ''?!... --'' = []"
    by blast
  with punct show ?thesis by blast
qed

subsection \<open>Parsing the provider's response\<close>

lemma dropWhile_to_first:
  "c \<notin> set xs \<Longrightarrow> dropWhile (\<lambda>x. x \<noteq> c) (xs @ c # ys) = c # ys"
  by (induction xs) auto

lemma bracket_match_first_last:
  assumes "CHR ''['' \<notin> set pre" and "CHR '']'' \<notin> set post"
  shows "bracket_match (pre @ CHR ''['' # mid @ CHR '']'' # post) = Some mid"
proof -
  have "CHR '']'' \<notin> set (rev post)" using assms(2) by simp
  then have "dropWhile (\<lambda>c. c \<noteq> CHR '']'') (rev post @ CHR '']'' # rev mid) = CHR '']'' # rev mid"
    by (rule dropWhile_to_first)
  then show ?thesis
    using assms(1) by (simp add: bracket_match_def dropWhile_to_first)
qed

lemma bracket_match_none:
  "CHR '']'' \<notin> set (dropWhile (\<lambda>c. c \<noteq> CHR ''['') txt) \<Longrightarrow> bracket_match txt = None"
  by (auto simp: bracket_match_def split: list.splits)

text \<open>
  A response with two bracketed arrays: what the client hands to \<^verbatim>\<open>JSON.parse\<close> (shown by
  a parser that returns its argument) is the text from the first \<^verbatim>\<open>[\<close> to the last
  \<^verbatim>\<open>]\<close>, not the first bracketed array.
\<close>

theorem C9_greedy_counterexample:
  "gemini_result (\<lambda>t. Inr (JStr t)) (Some [[''[1] [2]'']]) = Inr (JStr ''[1] [2]'')
   \<and> first_bracketed_array ''[1] [2]'' = Some ''[1]''"
  by (simp add: gemini_result_def bracket_match_def first_bracketed_array_def)

text \<open>
  C9, as the code has it. The client parses the text from the first \<^verbatim>\<open>[\<close> of the
  response to the last \<^verbatim>\<open>]\<close> of the response; when no \<^verbatim>\<open>]\<close> follows the first
  \<^verbatim>\<open>[\<close> (or there is no \<^verbatim>\<open>[\<close>) it parses the whole text; an error of the parse is
  the result of \<^verbatim>\<open>translateWithGemini\<close>: the \<^verbatim>\<open>catch\<close> block rethrows it, and a
  \<open>SyntaxError\<close> unchanged.
\<close>

theorem C9_first_to_last_bracket:
  "(CHR ''['' \<notin> set pre \<and> CHR '']'' \<notin> set post \<longrightarrow>
      gemini_result JSON_parse (Some (((pre @ ''['' @ mid @ '']'' @ post) # parts) # others))
        = JSON_parse (''['' @ mid @ '']''))
   \<and> (CHR '']'' \<notin> set (dropWhile (\<lambda>c. c \<noteq> CHR ''['') txt) \<longrightarrow>
      gemini_result JSON_parse (Some ((txt # parts) # others)) = JSON_parse txt)
   \<and> (texts \<noteq> [] \<and> axios_post \<lparr>url = gemini_url apiKey, prompt = gemini_prompt texts targetLang\<rparr> w
          = (Inr data, w')
        \<and> gemini_result JSON_parse data = Inl err \<longrightarrow>
      translateWithGemini axios_post JSON_parse texts targetLang apiKey w
        = (Inl (gemini_catch err), w'))
   \<and> gemini_catch SyntaxError = SyntaxError"
proof -
  have "CHR ''['' \<notin> set pre \<and> CHR '']'' \<notin> set post \<longrightarrow>
      gemini_result JSON_parse (Some (((pre @ ''['' @ mid @ '']'' @ post) # parts) # others))
        = JSON_parse (''['' @ mid @ '']'')"
    by (simp add: gemini_result_def bracket_match_first_last)
  moreover have "CHR '']'' \<notin> set (dropWhile (\<lambda>c. c \<noteq> CHR ''['') txt) \<longrightarrow>
      gemini_result JSON_parse (Some ((txt # parts) # others)) = JSON_parse txt"
    by (simp add: gemini_result_def bracket_match_none)
  moreover have "texts \<noteq> [] \<and> axios_post \<lparr>url = gemini_url apiKey, prompt = gemini_prompt texts targetLang\<rparr> w
          = (Inr data, w')
        \<and> gemini_result JSON_parse data = Inl err \<longrightarrow>
      translateWithGemini axios_post JSON_parse texts targetLang apiKey w
        = (Inl (gemini_catch err), w')"
    by (simp add: translateWithGemini_def)
  moreover have "gemini_catch SyntaxError = SyntaxError"
    by (simp add: gemini_catch_def)
  ultimately show ?thesis by blast
qed

theorem C9_first_to_last_bracket_witness:
  \<open>translateWithGemini (\<lambda>req n. (Inr (Some [[''Sure: ["Hola"] (see [1])'']]), Suc n))
       (\<lambda>t. if t = ''["Hola"] (see [1]'' then Inl SyntaxError else Inr (JStr t))
       [''Hello''] ''es'' ''KEY'' (0::nat)
     = (Inl SyntaxError, 1)\<close>
proof -
  let ?post = \<open>\<lambda>(req::gemini_request) (n::nat).
     (Inr (Some [[''Sure: ["Hola"] (see [1])'']]) :: js_error + gemini_data, Suc n)\<close>
  let ?parse = \<open>\<lambda>t. if t = ''["Hola"] (see [1]'' then Inl SyntaxError else Inr (JStr t)\<close>
  have a: \<open>gemini_result ?parse (Some [[''Sure: '' @ ''['' @ ''"Hola"] (see [1'' @ '']'' @ '')'']])
      = ?parse (''['' @ ''"Hola"] (see [1'' @ '']'')\<close>
    using C9_first_to_last_bracket [where pre = "''Sure: ''" and post = "'')''"
        and mid = \<open>''"Hola"] (see [1''\<close> and JSON_parse = ?parse and parts = "[]" and others = "[]", THEN conjunct1]
    by simp
  then have b: \<open>gemini_result ?parse (Some [[''Sure: ["Hola"] (see [1])'']]) = Inl SyntaxError\<close>
    by simp
  show ?thesis
    using C9_first_to_last_bracket [where texts = "[''Hello'']" and axios_post = ?post
        and JSON_parse = ?parse and w = 0 and w' = 1 and err = SyntaxError
        and data = \<open>Some [[''Sure: ["Hola"] (see [1])'']]\<close>,
        THEN conjunct2, THEN conjunct2, THEN conjunct1] b
    by (simp add: gemini_catch_def)
qed

subsection \<open>Backup before write\<close>

lemma backup_path_differs: "i18nFile @ ''.backup-'' @ d \<noteq> i18nFile"
proof
  assume "i18nFile @ ''.backup-'' @ d = i18nFile"
  then have "length (i18nFile @ ''.backup-'' @ d) = length i18nFile" by simp
  then show False by simp
qed

text \<open>
  C5. When \<^verbatim>\<open>updateTranslations\<close> returns normally, the resource file existed with some
  text; the copy to the path \<^verbatim>\<open><i18nFile>.backup-<now>\<close> succeeded and left a file system
  in which the backup holds exactly that text and the resource file is still untouched;
  the write of the new text came after it; and at the end the backup still holds the old
  text. When the copy is rejected, the call is rejected with the same error and the file
  system is as it was.
\<close>

theorem C5_backup_before_write:
  "(updateTranslations evalFn now i18nFile entries language forceAll fs = (Inr ok, fs') \<longrightarrow>
      (\<exists>content fs1.
          files fs i18nFile = Some content
        \<and> fs_copy fs i18nFile (i18nFile @ ''.backup-'' @ decimal now) = Inr fs1
        \<and> files fs1 (i18nFile @ ''.backup-'' @ decimal now) = Some content
        \<and> files fs1 i18nFile = Some content
        \<and> fs_writeFile fs1 i18nFile
              (updatedContent evalFn entries language forceAll content) = Inr fs'
        \<and> files fs' (i18nFile @ ''.backup-'' @ decimal now) = Some content))
   \<and> (fs_pathExists fs i18nFile
        \<and> fs_copy fs i18nFile (i18nFile @ ''.backup-'' @ decimal now) = Inl err \<longrightarrow>
      updateTranslations evalFn now i18nFile entries language forceAll fs = (Inl err, fs))"
proof (intro conjI impI)
  assume run: "updateTranslations evalFn now i18nFile entries language forceAll fs = (Inr ok, fs')"
  let ?backup = "i18nFile @ ''.backup-'' @ decimal now"
  from run obtain content where c: "files fs i18nFile = Some content"
    by (auto simp: updateTranslations_def fs_pathExists_def split: if_splits)
  let ?new = "updatedContent evalFn entries language forceAll content"
  from run c obtain fs1 where cp: "fs_copy fs i18nFile ?backup = Inr fs1"
    by (auto simp: updateTranslations_def fs_pathExists_def fs_readFile_def Let_def
        split: sum.splits)
  from run c cp have wr: "fs_writeFile fs1 i18nFile ?new = Inr fs'"
    by (auto simp: updateTranslations_def fs_pathExists_def fs_readFile_def Let_def
        split: sum.splits)
  from cp c have f1: "files fs1 = (files fs)(?backup \<mapsto> content)"
    by (auto simp: fs_copy_def split: if_splits)
  from wr have f2: "files fs' = (files fs1)(i18nFile \<mapsto> ?new)"
    by (auto simp: fs_writeFile_def split: if_splits)
  have d: "?backup \<noteq> i18nFile" by (rule backup_path_differs)
  have "files fs1 ?backup = Some content" by (simp add: f1)
  moreover have "files fs1 i18nFile = Some content" using d c by (simp add: f1)
  moreover have "files fs' ?backup = Some content" using d by (simp add: f1 f2)
  ultimately show "\<exists>content fs1.
          files fs i18nFile = Some content
        \<and> fs_copy fs i18nFile ?backup = Inr fs1
        \<and> files fs1 ?backup = Some content
        \<and> files fs1 i18nFile = Some content
        \<and> fs_writeFile fs1 i18nFile
              (updatedContent evalFn entries language forceAll content) = Inr fs'
        \<and> files fs' ?backup = Some content"
    using c cp wr by blast
next
  assume "fs_pathExists fs i18nFile
        \<and> fs_copy fs i18nFile (i18nFile @ ''.backup-'' @ decimal now) = Inl err"
  then show "updateTranslations evalFn now i18nFile entries language forceAll fs = (Inl err, fs)"
    by (auto simp: updateTranslations_def fs_pathExists_def fs_readFile_def Let_def)
qed

theorem C5_backup_before_write_witness:
  "fst (updateTranslations (\<lambda>body. Inl SyntaxError) 1730613600000 ''src/i18n.js''
          [(''common'', JObj [(''b'', JStr ''y'')])] ''es'' True fs0) = Inr True
   \<and> files (snd (updateTranslations (\<lambda>body. Inl SyntaxError) 1730613600000 ''src/i18n.js''
          [(''common'', JObj [(''b'', JStr ''y'')])] ''es'' True fs0))
        ''src/i18n.js.backup-1730613600000'' = Some es_block_file
   \<and> updateTranslations (\<lambda>body. Inl SyntaxError) 1730613600000 ''src/i18n.js''
          [(''common'', JObj [(''b'', JStr ''y'')])] ''es'' True fs_locked = (Inl FsError, fs_locked)"
proof -
  let ?ev = "\<lambda>body::string. Inl SyntaxError :: js_error + json"
  let ?ts = "[(''common'', JObj [(''b'', JStr ''y'')])]"
  let ?run = "updateTranslations ?ev 1730613600000 ''src/i18n.js'' ?ts ''es'' True fs0"
  have ok: "fst ?run = Inr True"
    by (simp add: updateTranslations_def fs_eval fs0_def Let_def decimal.simps)
  then have run: "?run = (Inr True, snd ?run)"
    by (metis prod.collapse)
  have dec: "decimal 1730613600000 = ''1730613600000''"
    by (simp add: decimal.simps)
  note C5_backup_before_write [where evalFn = "?ev" and now = "1730613600000"
      and i18nFile = "''src/i18n.js''" and entries = "?ts" and language = "''es''"
      and forceAll = "True" and fs = "fs0" and ok = "True" and fs' = "snd ?run", THEN conjunct1]
  with run have "files (snd ?run) ''src/i18n.js.backup-1730613600000'' = Some es_block_file"
    by (auto simp: dec fs0_def)
  moreover
  have "fs_pathExists fs_locked ''src/i18n.js''
      \<and> fs_copy fs_locked ''src/i18n.js'' (''src/i18n.js'' @ ''.backup-'' @ decimal 1730613600000)
          = Inl FsError"
    by (simp add: fs_eval fs_locked_def dec)
  with C5_backup_before_write [where evalFn = "?ev" and now = "1730613600000"
      and i18nFile = "''src/i18n.js''" and entries = "?ts" and language = "''es''"
      and forceAll = "True" and fs = "fs_locked" and err = "FsError", THEN conjunct2]
  have "updateTranslations ?ev 1730613600000 ''src/i18n.js'' ?ts ''es'' True fs_locked
      = (Inl FsError, fs_locked)"
    by blast
  ultimately show ?thesis using ok by blast
qed


subsection \<open>Replacement of the language block\<close>

lemma get_substitution_plain:
  "CHR ''$'' \<notin> set template \<Longrightarrow> get_substitution matched before after caps template = template"
  by (induction matched before after caps template rule: get_substitution.induct) auto

lemma regex_search_split:
  "regex_search here content = Some (before, m, rest) \<Longrightarrow>
   content = before @ rest \<and> here rest = Some m"
proof (induction content arbitrary: before)
  case Nil
  then show ?case by auto
next
  case (Cons c content)
  show ?case
  proof (cases "here (c # content)")
    case (Some m')
    with Cons.prems show ?thesis by simp
  next
    case None
    with Cons.prems obtain r where r: "regex_search here content = Some r"
      and "before = c # fst r" and "(m, rest) = snd r"
      by auto
    with Cons.IH [of "fst r"] show ?thesis by (cases r) auto
  qed
qed

lemma js_replace_plain:
  assumes "regex_search here content = Some (before, (n, caps), rest)"
    and "CHR ''$'' \<notin> set template"
  shows "js_replace here template content = before @ template @ drop n rest"
  using assms by (simp add: js_replace_def get_substitution_plain)

lemma force_replaces_block:
  assumes "regex_search (langRegex language) content = Some (before, (n, caps), rest)"
    and "CHR ''$'' \<notin> set (const_declaration language entries)"
  shows "updatedContent evalFn entries language True content
         = before @ const_declaration language entries @ drop n rest"
  using assms by (simp add: updatedContent_def js_replace_plain)

lemma incremental_merges_block:
  assumes "regex_search (langRegex language) content = Some (before, (n, caps), rest)"
    and "evalFn (''return ''
           @ remove_first (''const '' @ language @ ''Translations ='') (take n rest)) = Inr existing"
    and "CHR ''$'' \<notin> set (const_declaration language (merge_translations existing entries))"
  shows "updatedContent evalFn entries language False content
         = before @ const_declaration language (merge_translations existing entries) @ drop n rest"
  using assms by (simp add: updatedContent_def js_replace_plain)

lemma fallback_is_force:
  assumes "regex_search (langRegex language) content = Some (before, (n, caps), rest)"
    and "evalFn (''return ''
           @ remove_first (''const '' @ language @ ''Translations ='') (take n rest)) = Inl err"
  shows "updateTranslations evalFn now i18nFile entries language False
           (fs\<lparr>files := (files fs)(i18nFile \<mapsto> content)\<rparr>)
         = updateTranslations evalFn now i18nFile entries language True
           (fs\<lparr>files := (files fs)(i18nFile \<mapsto> content)\<rparr>)"
  using assms by (simp add: updateTranslations_def updatedContent_def fs_eval)

subsection \<open>What the merge computes\<close>

lemma map_of_insert_index:
  "k \<notin> set (map fst ps) \<Longrightarrow>
   map_of (insert_index k v ps) k' = (if k' = k then Some v else map_of ps k')"
  by (induction ps) auto

lemma map_of_replace:
  "map_of (map (\<lambda>p. if fst p = k then (k, v) else p) ps) k'
     = (if k' = k then (if k \<in> set (map fst ps) then Some v else None) else map_of ps k')"
  by (induction ps) force+

lemma map_of_obj_set:
  "map_of (obj_set k v ps) k' = (if k' = k then Some v else map_of ps k')"
proof (cases "k \<in> set (map fst ps)")
  case True
  then show ?thesis by (simp add: obj_set_def map_of_replace)
next
  case False
  then have "map_of ps k = None" by (simp add: map_of_eq_None_iff)
  with False show ?thesis
    by (auto simp: obj_set_def map_of_insert_index map_add_def split: option.splits)
qed

lemma map_of_assign_all:
  "map_of (assign_all target props) k
     = (case map_of (rev props) k of Some v \<Rightarrow> Some v | None \<Rightarrow> map_of target k)"
proof (induction props arbitrary: target)
  case Nil
  then show ?case by (simp add: assign_all_def)
next
  case (Cons p props)
  have "assign_all target (p # props) = assign_all (obj_set (fst p) (snd p) target) props"
    by (simp add: assign_all_def)
  then show ?case
    using Cons.IH [of "obj_set (fst p) (snd p) target"]
    by (cases p) (auto simp: map_of_obj_set map_add_def split: option.splits)
qed

lemma map_of_merge_namespace:
  "map_of (merge_namespace merged (ns, new)) k
     = (if k = ns
        then Some (JObj (assign_all
               (spread_object (case map_of merged ns of
                                 Some old \<Rightarrow> if truthy old then old else JObj []
                               | None \<Rightarrow> JObj []))
               (own_properties new)))
        else map_of merged k)"
  by (simp add: merge_namespace_def map_of_obj_set)

lemma map_of_fold_merge:
  "distinct (map fst entries) \<Longrightarrow>
   map_of (foldl merge_namespace merged entries) ns
     = (case map_of entries ns of
          None \<Rightarrow> map_of merged ns
        | Some new \<Rightarrow>
            Some (JObj (assign_all
               (spread_object (case map_of merged ns of
                                 Some old \<Rightarrow> if truthy old then old else JObj []
                               | None \<Rightarrow> JObj []))
               (own_properties new))))"
proof (induction entries arbitrary: merged)
  case Nil
  then show ?case by simp
next
  case (Cons e entries)
  obtain n1 v1 where e: "e = (n1, v1)" by (cases e)
  from Cons.prems e have d: "distinct (map fst entries)" and n1: "n1 \<notin> set (map fst entries)"
    by auto
  from n1 have none: "map_of entries n1 = None" by (simp add: map_of_eq_None_iff)
  show ?case
  proof (cases "ns = n1")
    case True
    have mm: "map_of (merge_namespace merged (n1, v1)) n1
        = Some (JObj (assign_all
               (spread_object (case map_of merged n1 of
                                 Some old \<Rightarrow> if truthy old then old else JObj []
                               | None \<Rightarrow> JObj []))
               (own_properties v1)))"
      by (simp add: map_of_merge_namespace)
    have "map_of (e # entries) ns = Some v1"
      using True e by simp
    with Cons.IH [OF d, of "merge_namespace merged (n1, v1)"] none e mm True show ?thesis
      by (simp split: option.splits)
  next
    case False
    then have mm: "map_of (merge_namespace merged (n1, v1)) ns = map_of merged ns"
      by (simp add: map_of_merge_namespace)
    have "map_of (e # entries) ns = map_of entries ns"
      using False e by simp
    with Cons.IH [OF d, of "merge_namespace merged (n1, v1)"] e mm show ?thesis
      by (simp split: option.splits)
  qed
qed

lemma merge_shallow:
  assumes "distinct (map fst entries)"
  shows "map_of (merge_translations (JObj existing) entries) ns
     = (case map_of entries ns of
          None \<Rightarrow> map_of (rev existing) ns
        | Some new \<Rightarrow>
            Some (JObj (assign_all
               (spread_object (case map_of (rev existing) ns of
                                 Some old \<Rightarrow> if truthy old then old else JObj []
                               | None \<Rightarrow> JObj []))
               (own_properties new))))"
  using map_of_fold_merge [OF assms, of "spread_object (JObj existing)" ns]
  by (simp add: merge_translations_def spread_object_def own_properties_def map_of_assign_all
      split: option.splits)

lemma merged_namespace_keys:
  "map_of (assign_all (spread_object (JObj old)) (own_properties (JObj new))) k
     = (case map_of (rev new) k of Some v \<Rightarrow> Some v | None \<Rightarrow> map_of (rev old) k)"
  by (simp add: map_of_assign_all spread_object_def own_properties_def split: option.splits)

subsection \<open>The specification's examples\<close>

lemma force_example:
  \<open>updatedContent evalFn [(''common'', JObj [(''b'', JStr ''y'')])] ''es'' True es_block_file
     = ''const esTranslations = {\<newline>  "common": {\<newline>    "b": "y"\<newline>  }\<newline>};\<newline>i18n''\<close>
  by (simp add: updatedContent_def es_block_file_def regex_eval json_eval)

lemma incremental_example:
  \<open>updatedContent es_block_eval [(''common'', JObj [(''b'', JStr ''y'')])] ''es'' False es_block_file
     = ''const esTranslations = {\<newline>  "common": {\<newline>    "a": "x",\<newline>    "b": "y"\<newline>  }\<newline>};\<newline>i18n''\<close>
  by (simp add: updatedContent_def es_block_file_def regex_eval json_eval es_block_eval_def
      merge_eval obj_eval)

subsection \<open>Dollar signs in the new entries\<close>

text \<open>
  The replacement text of \<^verbatim>\<open>content.replace(langRegex, ...)\<close> is the printed declaration
  itself, so the patterns \<^verbatim>\<open>$$\<close>, \<^verbatim>\<open>$&\<close>, \<^verbatim>\<open>$`\<close> and \<^verbatim>\<open>$'\<close> in a translated text are
  expanded. The lemmas \<open>force_replaces_block\<close>, \<open>incremental_merges_block\<close>,
  \<open>merge_shallow\<close> and \<open>merged_namespace_keys\<close> say that without a dollar sign the block
  is replaced by the declaration of the new entries, or of the shallow merge; the three
  evaluations below are inputs with a dollar sign.
\<close>

text \<open>
  C4, at an entry that holds \<^verbatim>\<open>$$\<close>. Under the force policy, on the file with the
  Spanish block \<^verbatim>\<open>{common: {a: "x"}}\<close> and the new entries
  \<^verbatim>\<open>{forms: {saveToday: "Ahorra $$ hoy"}}\<close>, the call returns normally and the resource
  file holds \<^verbatim>\<open>"saveToday": "Ahorra $ hoy"\<close>: the block was not replaced by the new
  entries.
\<close>

theorem C4_force_dollar_entries:
  \<open>updateTranslations evalFn 1730613600000 ''src/i18n.js''
       [(''forms'', JObj [(''saveToday'', JStr ''Ahorra $$ hoy'')])] ''es'' True fs0
     = (Inr True,
        \<lparr>files = (\<lambda>p. None)
           (''src/i18n.js'' \<mapsto>
              ''const esTranslations = {\<newline>  "forms": {\<newline>    "saveToday": "Ahorra $ hoy"\<newline>  }\<newline>};\<newline>i18n'',
            ''src/i18n.js.backup-1730613600000'' \<mapsto> es_block_file),
         unwritable = []\<rparr>)\<close>
  by (simp add: updateTranslations_def fs_eval fs0_def Let_def decimal.simps
      updatedContent_def es_block_file_def regex_eval json_eval fun_upd_twist)

text \<open>
  C3, at an entry that holds \<^verbatim>\<open>$$$\<close>. Under the incremental policy, on the same file,
  whose block evaluates to \<^verbatim>\<open>{common: {a: "x"}}\<close>, and the new entries
  \<^verbatim>\<open>{common: {priceLevel: "$$$"}}\<close>, the call returns normally and the resource file
  holds \<^verbatim>\<open>"a": "x"\<close> and \<^verbatim>\<open>"priceLevel": "$$"\<close>: the new key does not have the new value.
\<close>

theorem C3_incremental_dollar_entries:
  \<open>updateTranslations es_block_eval 1730613600000 ''src/i18n.js''
       [(''common'', JObj [(''priceLevel'', JStr ''$$$'')])] ''es'' False fs0
     = (Inr True,
        \<lparr>files = (\<lambda>p. None)
           (''src/i18n.js'' \<mapsto>
              ''const esTranslations = {\<newline>  "common": {\<newline>    "a": "x",\<newline>    "priceLevel": "$$"\<newline>  }\<newline>};\<newline>i18n'',
            ''src/i18n.js.backup-1730613600000'' \<mapsto> es_block_file),
         unwritable = []\<rparr>)\<close>
  by (simp add: updateTranslations_def fs_eval fs0_def Let_def decimal.simps
      updatedContent_def es_block_file_def regex_eval json_eval fun_upd_twist
      es_block_eval_def merge_eval obj_eval)

text \<open>
  On a block written without blanks around the equals sign, the text to remove does not
  occur: what is evaluated is \<^verbatim>\<open>return\<close> followed by the whole declaration.
\<close>

lemma tight_block_body:
  \<open>remove_first (''const '' @ ''es'' @ ''Translations ='') ''const esTranslations={"common":{"a":"x"}};''
     = ''const esTranslations={"common":{"a":"x"}};''\<close>
  by (simp add: remove_first_def)

text \<open>
  C10, at an entry that holds \<^verbatim>\<open>$$\<close>. Under the incremental policy, on a file whose
  Spanish block is written without blanks (the text handed to the evaluator then starts
  with \<^verbatim>\<open>return const\<close>, and the evaluation throws), and the new entries
  \<^verbatim>\<open>{common: {off: "$$ de descuento"}}\<close>, the call returns normally, the old key is gone,
  and the resource file holds \<^verbatim>\<open>"off": "$ de descuento"\<close>: the block was not replaced by
  the new entries.
\<close>

theorem C10_fallback_dollar_entries:
  \<open>updateTranslations (\<lambda>body. Inl SyntaxError) 1730613600000 ''src/i18n.js''
       [(''common'', JObj [(''off'', JStr ''$$ de descuento'')])] ''es'' False fs_tight
     = (Inr True,
        \<lparr>files = (\<lambda>p. None)
           (''src/i18n.js'' \<mapsto>
              ''const esTranslations = {\<newline>  "common": {\<newline>    "off": "$ de descuento"\<newline>  }\<newline>};\<newline>i18n'',
            ''src/i18n.js.backup-1730613600000'' \<mapsto> es_tight_file),
         unwritable = []\<rparr>)\<close>
  by (simp add: updateTranslations_def fs_eval fs_tight_def Let_def decimal.simps
      updatedContent_def es_tight_file_def regex_eval json_eval fun_upd_twist)

end
